theory Spec2Isabelle
  imports Main
begin

section \<open>The SDK adapter \<open>ExtendedGretelSDK\<close> of \<open>gretel_trainer/relational/sdk_extras.py\<close>\<close>

text \<open>
  The adapter is a class with one field, \<open>_hybrid\<close>, and seven small methods that
  delegate to objects of the external SDK (\<open>Job\<close>, \<open>Model\<close>, \<open>RecordHandler\<close>,
  \<open>Project\<close>). The embedding keeps the methods' names and branch order. The SDK objects
  are records holding the attributes the adapter reads; the SDK operations the adapter
  calls (\<open>refresh\<close>, \<open>delete_artifact\<close>, \<open>get_artifact_handle\<close>, ...) are not part of
  the repository and enter as parameters. A Python exception is a value of type \<open>exn\<close>,
  and a method that can raise returns \<open>exn + 'a\<close> with \<open>Inl\<close> for the exception.
\<close>

subsection \<open>Exceptions and observable calls\<close>

datatype exn =
    KeyError string
  | TypeError
  | MultiTableException string
  | Other_exception string

text \<open>
  The calls a method makes on the SDK objects and on the module's logger, in the order
  in which it makes them.
\<close>

datatype sdk_call =
    Delete_artifact string
  | Submit
  | Log_info string
  | Log_warning string

subsection \<open>The objects the adapter is handed\<close>

text \<open>
  \<open>isinstance(job, Model)\<close> and \<open>isinstance(job, RecordHandler)\<close> distinguish the
  variants of a job; any other subclass of \<open>Job\<close> is \<open>Other_job\<close>. The identifiers are
  \<open>Optional[str]\<close> in the SDK.
\<close>

datatype job_variant =
    Model (model_id: "string option")
  | RecordHandler (record_id: "string option")
  | Other_job

text \<open>
  The attributes of a job that the adapter reads: \<open>job.data_source\<close>,
  \<open>job.ref_data.values\<close> and \<open>job.status\<close>. The type of the status is the SDK's and
  stays a parameter.
\<close>

record 'st job =
  variant :: job_variant
  data_source :: "string option"
  ref_data_values :: "string list"
  status :: 'st

text \<open>Of a project only \<open>project.artifacts\<close> is read, and only its length.\<close>

record 'a project =
  artifacts :: "'a list"

record extended_gretel_sdk =
  hybrid :: bool

definition MAX_PROJECT_ARTIFACTS :: int where
  "MAX_PROJECT_ARTIFACTS = 10000"

subsection \<open>\<open>get_job_id\<close>\<close>

definition get_job_id :: "extended_gretel_sdk \<Rightarrow> 'st job \<Rightarrow> exn + string option" where
  "get_job_id self job =
     (case variant job of
        Model m \<Rightarrow> Inr m
      | RecordHandler r \<Rightarrow> Inr r
      | Other_job \<Rightarrow> Inl (MultiTableException ''Unexpected job object''))"

subsection \<open>\<open>delete_data_sources\<close>\<close>

text \<open>
  \<open>project.delete_artifact\<close> is the SDK's: it is the parameter \<open>delete_artifact\<close>,
  which takes the project and the artifact key and gives the project afterwards or the
  exception it raises. The method has no handler around these calls, so the first call
  that raises ends the method with its exception and the later calls are not made. The
  model gives the outcome, the project after the calls that returned, and the calls made
  (the data source first, the reference data in the order of \<open>job.ref_data.values\<close>,
  the call that raised last).
\<close>

fun delete_each ::
  "('p \<Rightarrow> string \<Rightarrow> exn + 'p) \<Rightarrow> string list \<Rightarrow> 'p \<times> sdk_call list \<Rightarrow>
     (exn + unit) \<times> 'p \<times> sdk_call list" where
  "delete_each delete_artifact [] (project, calls) = (Inr (), project, calls)"
| "delete_each delete_artifact (ref_data # rest) (project, calls) =
     (case delete_artifact project ref_data of
        Inl e \<Rightarrow> (Inl e, project, calls @ [Delete_artifact ref_data])
      | Inr project' \<Rightarrow>
          delete_each delete_artifact rest (project', calls @ [Delete_artifact ref_data]))"

definition delete_data_sources ::
  "extended_gretel_sdk \<Rightarrow> ('p \<Rightarrow> string \<Rightarrow> exn + 'p) \<Rightarrow> 'p \<Rightarrow> 'st job \<Rightarrow>
     (exn + unit) \<times> 'p \<times> sdk_call list" where
  "delete_data_sources self delete_artifact project job =
     (if \<not> hybrid self then
        (case data_source job of
           None \<Rightarrow> delete_each delete_artifact (ref_data_values job) (project, [])
         | Some ds \<Rightarrow>
             (case delete_artifact project ds of
                Inl e \<Rightarrow> (Inl e, project, [Delete_artifact ds])
              | Inr project' \<Rightarrow>
                  delete_each delete_artifact (ref_data_values job)
                    (project', [Delete_artifact ds])))
      else (Inr (), project, []))"

subsection \<open>\<open>cautiously_refresh_status\<close>\<close>

text \<open>
  \<open>refresh_attempts\<close> is annotated \<open>dict[str, int]\<close>, which admits the subclasses of
  \<open>dict\<close> that define \<open>__missing__\<close>. Reading \<open>d[key]\<close> at a key that is not there
  raises \<open>KeyError\<close> on a plain \<open>dict\<close>; on a \<open>collections.defaultdict\<close> it stores
  the value of the default factory under the key and returns it; on a
  \<open>collections.Counter\<close> it returns zero and stores nothing.
\<close>

datatype missing_hook =
    No_missing
  | Default_factory int
  | Counter_missing

record py_dict =
  items :: "string \<rightharpoonup> int"
  on_missing :: missing_hook

definition getitem :: "py_dict \<Rightarrow> string \<Rightarrow> (exn + int) \<times> py_dict" where
  "getitem d key =
     (case items d key of
        Some n \<Rightarrow> (Inr n, d)
      | None \<Rightarrow>
          (case on_missing d of
             No_missing \<Rightarrow> (Inl (KeyError key), d)
           | Default_factory v \<Rightarrow> (Inr v, d\<lparr>items := (items d)(key \<mapsto> v)\<rparr>)
           | Counter_missing \<Rightarrow> (Inr 0, d)))"

definition setitem :: "py_dict \<Rightarrow> string \<Rightarrow> int \<Rightarrow> py_dict" where
  "setitem d key v = d\<lparr>items := (items d)(key \<mapsto> v)\<rparr>"

text \<open>
  \<open>job.refresh()\<close> is the SDK's: the parameter \<open>refresh\<close> gives either the job as the
  service now reports it or the exception raised. The read of \<open>refresh_attempts[key]\<close>
  stands inside the \<open>except\<close> block, where nothing catches what it raises. The
  dictionary is mutated in place, so the method returns it next to its outcome, also when
  it raises.
\<close>

definition cautiously_refresh_status ::
  "extended_gretel_sdk \<Rightarrow> ('st job \<Rightarrow> exn + 'st job) \<Rightarrow> 'st job \<Rightarrow> string \<Rightarrow>
     py_dict \<Rightarrow> (exn + 'st) \<times> 'st job \<times> py_dict" where
  "cautiously_refresh_status self refresh job key refresh_attempts =
     (case refresh job of
        Inr job' \<Rightarrow> (Inr (status job'), job', setitem refresh_attempts key 0)
      | Inl e \<Rightarrow>
          (case getitem refresh_attempts key of
             (Inl e', d) \<Rightarrow> (Inl e', job, d)
           | (Inr n, d) \<Rightarrow> (Inr (status job), job, setitem d key (n + 1))))"

subsection \<open>\<open>download_file_artifact\<close>\<close>






subsection \<open>\<open>sqs_score_from_full_report\<close>\<close>

text \<open>
  A report is a \<open>dict[str, Any]\<close> read from JSON. Its values are \<open>None\<close>, booleans,
  integers, strings, lists and dictionaries; a dictionary is an association list whose
  first entry for a key is the one looked up.
\<close>

datatype pyval =
    PNone
  | PBool bool
  | PInt int
  | PStr string
  | PList "pyval list"
  | PDict "(string \<times> pyval) list"

text \<open>
  \<open>obj[key]\<close> with a string key: a dictionary without the key raises \<open>KeyError\<close>;
  strings and lists take integer indices only, and the other values are not
  subscriptable at all, so they raise \<open>TypeError\<close>.
\<close>

fun subscript :: "pyval \<Rightarrow> string \<Rightarrow> exn + pyval" where
  "subscript (PDict kvs) key =
     (case map_of kvs key of None \<Rightarrow> Inl (KeyError key) | Some v \<Rightarrow> Inr v)"
| "subscript _ key = Inl TypeError"

text \<open>
  The values a \<open>for\<close> loop runs over: the elements of a list, the keys of a dictionary,
  the characters of a string; the other values are not iterable.
\<close>

fun iter :: "pyval \<Rightarrow> exn + pyval list" where
  "iter (PList xs) = Inr xs"
| "iter (PDict kvs) = Inr (map (\<lambda>kv. PStr (fst kv)) kvs)"
| "iter (PStr s) = Inr (map (\<lambda>c. PStr [c]) s)"
| "iter _ = Inl TypeError"

definition sqs_field :: string where
  "sqs_field = ''synthetic_data_quality_score''"

text \<open>The loop over the summary; falling off its end, the method returns \<open>None\<close>.\<close>

fun sqs_loop :: "pyval list \<Rightarrow> exn + pyval" where
  "sqs_loop [] = Inr PNone"
| "sqs_loop (field_dict # rest) =
     (case subscript field_dict ''field'' of
        Inl e \<Rightarrow> Inl e
      | Inr f \<Rightarrow>
          if f = PStr sqs_field then subscript field_dict ''value''
          else sqs_loop rest)"

text \<open>\<open>with suppress(KeyError)\<close>: a \<open>KeyError\<close> ends the block, every other exception
  goes on to the caller.\<close>

fun suppress_KeyError :: "exn + pyval \<Rightarrow> exn + pyval" where
  "suppress_KeyError (Inl (KeyError k)) = Inr PNone"
| "suppress_KeyError r = r"

definition sqs_score_from_full_report ::
  "extended_gretel_sdk \<Rightarrow> (string \<times> pyval) list \<Rightarrow> exn + pyval" where
  "sqs_score_from_full_report self report =
     suppress_KeyError
       (case subscript (PDict report) ''summary'' of
          Inl e \<Rightarrow> Inl e
        | Inr summary \<Rightarrow>
            (case iter summary of
               Inl e \<Rightarrow> Inl e
             | Inr field_dicts \<Rightarrow> sqs_loop field_dicts))"

subsection \<open>\<open>start_job_if_possible\<close>\<close>

text \<open>
  The method returns nothing; what it does is the list of its calls: the log line and,
  when the job is started, \<open>job.submit()\<close>. The requested count is a Python integer.
\<close>

definition room_in_project :: "extended_gretel_sdk \<Rightarrow> 'a project \<Rightarrow> int \<Rightarrow> bool" where
  "room_in_project self project count =
     (if hybrid self then True
      else int (length (artifacts project)) + count \<le> MAX_PROJECT_ARTIFACTS)"

definition log_start :: "string \<Rightarrow> string \<Rightarrow> sdk_call" where
  "log_start table_name action =
     Log_info (''Starting '' @ action @ '' for `'' @ table_name @ ''`.'')"

definition log_waiting :: "string \<Rightarrow> string \<Rightarrow> sdk_call" where
  "log_waiting table_name action =
     Log_info (''Maximum concurrent relational jobs reached. Deferring start of `''
       @ table_name @ ''` '' @ action @ ''.'')"

definition start_job_if_possible ::
  "extended_gretel_sdk \<Rightarrow> 'st job \<Rightarrow> string \<Rightarrow> string \<Rightarrow> 'a project \<Rightarrow> int \<Rightarrow> sdk_call list" where
  "start_job_if_possible self job table_name action project number_of_artifacts =
     (if data_source job = None \<or> room_in_project self project number_of_artifacts then
        [log_start table_name action, Submit]
      else [log_waiting table_name action])"


subsection \<open>Concrete inputs\<close>

text \<open>A job of each variant, a dictionary of attempts, and two refresh operations: one
  that reports the job completed, one whose request fails.\<close>

definition model_job :: "string job" where
  "model_job =
     \<lparr>variant = Model (Some ''m-1''), data_source = Some ''gretel_abc_users.csv'',
      ref_data_values = [''gretel_def_ref0.csv'', ''gretel_ghi_ref1.csv''],
      status = ''active''\<rparr>"

definition handler_job :: "string job" where
  "handler_job =
     \<lparr>variant = RecordHandler (Some ''rh-7''), data_source = None,
      ref_data_values = [], status = ''pending''\<rparr>"

definition plain_job :: "string job" where
  "plain_job =
     \<lparr>variant = Other_job, data_source = None, ref_data_values = [],
      status = ''created''\<rparr>"

definition refresh_completes :: "string job \<Rightarrow> exn + string job" where
  "refresh_completes job = Inr (job\<lparr>status := ''completed''\<rparr>)"

definition refresh_fails :: "string job \<Rightarrow> exn + string job" where
  "refresh_fails job = Inl (Other_exception ''connection reset'')"

definition no_attempts :: py_dict where
  "no_attempts = \<lparr>items = Map.empty, on_missing = No_missing\<rparr>"

definition some_attempts :: py_dict where
  "some_attempts = \<lparr>items = [''users'' \<mapsto> 2, ''events'' \<mapsto> 5], on_missing = No_missing\<rparr>"

text \<open>\<open>defaultdict(int, {"events": 5})\<close>.\<close>

definition default_attempts :: py_dict where
  "default_attempts = \<lparr>items = [''events'' \<mapsto> 5], on_missing = Default_factory 0\<rparr>"


text \<open>A project whose artifacts are their keys, with a \<open>delete_artifact\<close> that drops
  the key.\<close>

definition drop_artifact :: "string project \<Rightarrow> string \<Rightarrow> exn + string project" where
  "drop_artifact project key =
     Inr (project\<lparr>artifacts := removeAll key (artifacts project)\<rparr>)"

text \<open>The same, except that one artifact cannot be deleted.\<close>

definition drop_unlocked :: "string project \<Rightarrow> string \<Rightarrow> exn + string project" where
  "drop_unlocked project key =
     (if key = ''gretel_def_ref0.csv'' then Inl (Other_exception ''artifact in use'')
      else drop_artifact project key)"

definition small_project :: "string project" where
  "small_project =
     \<lparr>artifacts = [''gretel_abc_users.csv'', ''gretel_def_ref0.csv'', ''other.csv'']\<rparr>"





text \<open>Reports: a regular one, one whose summary is \<open>None\<close>, one whose first summary
  entry is a number, and one whose first summary entry has no \<open>field\<close> key.\<close>

definition sqs_entry :: pyval where
  "sqs_entry = PDict [(''field'', PStr ''synthetic_data_quality_score''), (''value'', PInt 80)]"

definition regular_report :: "(string \<times> pyval) list" where
  "regular_report =
     [(''summary'',
        PList [PDict [(''field'', PStr ''field_correlation_stability''), (''value'', PInt 71)],
               sqs_entry,
               PDict [(''field'', PStr ''synthetic_data_quality_score''), (''value'', PInt 3)]])]"

definition null_summary_report :: "(string \<times> pyval) list" where
  "null_summary_report = [(''summary'', PNone)]"

definition number_first_report :: "(string \<times> pyval) list" where
  "number_first_report = [(''summary'', PList [PInt 5, PDict [], sqs_entry])]"

definition fieldless_first_report :: "(string \<times> pyval) list" where
  "fieldless_first_report =
     [(''summary'',
        PList [PDict [(''field'', PStr ''privacy_protection_level''), (''value'', PInt 2)],
               PDict [(''value'', PInt 9)],
               PDict [(''field'', PStr ''field_distribution_stability'')],
               sqs_entry])]"

definition no_summary_report :: "(string \<times> pyval) list" where
  "no_summary_report = [(''fields'', PList [])]"

definition unscored_report :: "(string \<times> pyval) list" where
  "unscored_report =
     [(''summary'',
        PList [PDict [(''field'', PStr ''field_correlation_stability''), (''value'', PInt 71)],
               PDict [(''field'', PInt 0), (''value'', PInt 1)]])]"

definition valueless_report :: "(string \<times> pyval) list" where
  "valueless_report =
     [(''summary'', PList [PDict [(''field'', PStr ''synthetic_data_quality_score'')]])]"

definition string_entry_report :: "(string \<times> pyval) list" where
  "string_entry_report = [(''summary'', PList [PStr ''synthetic_data_quality_score''])]"

section \<open>Properties\<close>

subsection \<open>\<open>get_job_id\<close>\<close>

text \<open>
  C3. For every job, \<open>get_job_id\<close> returns the job's \<open>model_id\<close> when the job is a
  \<open>Model\<close>, its \<open>record_id\<close> when it is a \<open>RecordHandler\<close>, and raises
  \<open>MultiTableException\<close> for every other variant; the three cases cover every job.
\<close>

theorem get_job_id_by_variant:
  "(\<forall>m. variant job = Model m \<longrightarrow> get_job_id self job = Inr m)
   \<and> (\<forall>r. variant job = RecordHandler r \<longrightarrow> get_job_id self job = Inr r)
   \<and> (variant job = Other_job \<longrightarrow>
        get_job_id self job = Inl (MultiTableException ''Unexpected job object''))
   \<and> ((\<exists>m. variant job = Model m) \<or> (\<exists>r. variant job = RecordHandler r)
        \<or> variant job = Other_job)"
  by (cases "variant job") (simp_all add: get_job_id_def)

theorem get_job_id_by_variant_witness:
  "get_job_id \<lparr>hybrid = False\<rparr> model_job = Inr (Some ''m-1'')
   \<and> get_job_id \<lparr>hybrid = False\<rparr> handler_job = Inr (Some ''rh-7'')
   \<and> get_job_id \<lparr>hybrid = True\<rparr> plain_job
       = Inl (MultiTableException ''Unexpected job object'')"
  using get_job_id_by_variant [of model_job "\<lparr>hybrid = False\<rparr>"]
    get_job_id_by_variant [of handler_job "\<lparr>hybrid = False\<rparr>"]
    get_job_id_by_variant [of plain_job "\<lparr>hybrid = True\<rparr>"]
  by (simp add: model_job_def handler_job_def plain_job_def)

subsection \<open>\<open>start_job_if_possible\<close>\<close>

text \<open>
  C1. \<open>start_job_if_possible\<close> logs the start and submits the job when the job has no
  data source, whatever the capacity, and when hybrid mode is set; for a job with a data
  source outside hybrid mode it submits exactly when the number of the project's
  artifacts plus the requested number is at most 10000. When it does not submit, its only
  call is the log of the deferral.
\<close>

theorem start_job_if_possible_gate:
  "(data_source job = None \<longrightarrow>
      start_job_if_possible self job table_name action project n
        = [log_start table_name action, Submit])
   \<and> (hybrid self \<longrightarrow>
      start_job_if_possible self job table_name action project n
        = [log_start table_name action, Submit])
   \<and> (data_source job \<noteq> None \<and> \<not> hybrid self \<longrightarrow>
        (Submit \<in> set (start_job_if_possible self job table_name action project n)
           \<longleftrightarrow> int (length (artifacts project)) + n \<le> 10000))
   \<and> (Submit \<in> set (start_job_if_possible self job table_name action project n) \<longrightarrow>
        start_job_if_possible self job table_name action project n
          = [log_start table_name action, Submit])
   \<and> (Submit \<notin> set (start_job_if_possible self job table_name action project n) \<longrightarrow>
        start_job_if_possible self job table_name action project n
          = [log_waiting table_name action])"
  by (simp add: start_job_if_possible_def room_in_project_def MAX_PROJECT_ARTIFACTS_def
      log_start_def log_waiting_def)

theorem start_job_if_possible_gate_witness:
  "start_job_if_possible \<lparr>hybrid = False\<rparr> handler_job ''users'' ''synthetics''
       small_project 9998
     = [log_start ''users'' ''synthetics'', Submit]
   \<and> start_job_if_possible \<lparr>hybrid = True\<rparr> model_job ''users'' ''synthetics''
       small_project 9998
     = [log_start ''users'' ''synthetics'', Submit]
   \<and> Submit \<in> set (start_job_if_possible \<lparr>hybrid = False\<rparr> model_job ''users''
       ''synthetics'' small_project 9997)
   \<and> start_job_if_possible \<lparr>hybrid = False\<rparr> model_job ''users'' ''synthetics''
       small_project 9998
     = [log_waiting ''users'' ''synthetics'']"
proof -
  have no_source: "data_source handler_job = None"
    by (simp add: handler_job_def)
  have source: "data_source model_job \<noteq> None"
    by (simp add: model_job_def)
  have is_hybrid: "hybrid \<lparr>hybrid = True\<rparr>" and not_hybrid: "\<not> hybrid \<lparr>hybrid = False\<rparr>"
    by simp_all
  have room: "int (length (artifacts small_project)) + 9997 \<le> 10000"
    by (simp add: small_project_def)
  have full: "\<not> int (length (artifacts small_project)) + 9998 \<le> 10000"
    by (simp add: small_project_def)
  have a: "start_job_if_possible \<lparr>hybrid = False\<rparr> handler_job ''users'' ''synthetics''
       small_project 9998 = [log_start ''users'' ''synthetics'', Submit]"
    using start_job_if_possible_gate [of handler_job "\<lparr>hybrid = False\<rparr>" "''users''"
      "''synthetics''" small_project 9998] no_source by blast
  have b: "start_job_if_possible \<lparr>hybrid = True\<rparr> model_job ''users'' ''synthetics''
       small_project 9998 = [log_start ''users'' ''synthetics'', Submit]"
    using start_job_if_possible_gate [of model_job "\<lparr>hybrid = True\<rparr>" "''users''"
      "''synthetics''" small_project 9998] is_hybrid by blast
  have c: "Submit \<in> set (start_job_if_possible \<lparr>hybrid = False\<rparr> model_job ''users''
       ''synthetics'' small_project 9997)"
    using start_job_if_possible_gate [of model_job "\<lparr>hybrid = False\<rparr>" "''users''"
      "''synthetics''" small_project 9997] source not_hybrid room by blast
  have d: "start_job_if_possible \<lparr>hybrid = False\<rparr> model_job ''users'' ''synthetics''
       small_project 9998 = [log_waiting ''users'' ''synthetics'']"
    using start_job_if_possible_gate [of model_job "\<lparr>hybrid = False\<rparr>" "''users''"
      "''synthetics''" small_project 9998] source not_hybrid full by blast
  from a b c d show ?thesis by blast
qed

subsection \<open>\<open>cautiously_refresh_status\<close>\<close>

text \<open>
  C2, as the code has it. When the refresh succeeds, \<open>cautiously_refresh_status\<close> sets
  the counter at the key to zero and returns the refreshed job's status. When the refresh
  raises and the key is in the dictionary, it sets the counter at the key to its old value
  plus one, leaves the job as it was, and returns the job's status.
\<close>

theorem cautiously_refresh_status_counter:
  "(\<forall>job'. refresh job = Inr job' \<longrightarrow>
      fst (cautiously_refresh_status self refresh job key refresh_attempts)
        = Inr (status job')
      \<and> fst (snd (cautiously_refresh_status self refresh job key refresh_attempts)) = job'
      \<and> items (snd (snd (cautiously_refresh_status self refresh job key refresh_attempts)))
          key = Some 0)
   \<and> (\<forall>e n. refresh job = Inl e \<and> items refresh_attempts key = Some n \<longrightarrow>
      fst (cautiously_refresh_status self refresh job key refresh_attempts)
        = Inr (status job)
      \<and> fst (snd (cautiously_refresh_status self refresh job key refresh_attempts)) = job
      \<and> items (snd (snd (cautiously_refresh_status self refresh job key refresh_attempts)))
          key = Some (n + 1))"
  by (simp add: cautiously_refresh_status_def getitem_def setitem_def)

theorem cautiously_refresh_status_counter_witness:
  "fst (cautiously_refresh_status \<lparr>hybrid = False\<rparr> refresh_completes model_job ''users''
          some_attempts) = Inr ''completed''
   \<and> items (snd (snd (cautiously_refresh_status \<lparr>hybrid = False\<rparr> refresh_completes
          model_job ''users'' some_attempts))) ''users'' = Some 0
   \<and> fst (cautiously_refresh_status \<lparr>hybrid = False\<rparr> refresh_fails model_job ''users''
          some_attempts) = Inr ''active''
   \<and> items (snd (snd (cautiously_refresh_status \<lparr>hybrid = False\<rparr> refresh_fails model_job
          ''users'' some_attempts))) ''users'' = Some 3"
proof -
  have ok: "refresh_completes model_job = Inr (model_job\<lparr>status := ''completed''\<rparr>)"
    by (simp add: refresh_completes_def)
  have failed: "refresh_fails model_job = Inl (Other_exception ''connection reset'')"
    by (simp add: refresh_fails_def)
  have two: "items some_attempts ''users'' = Some 2"
    by (simp add: some_attempts_def)
  have active: "status model_job = ''active''"
    by (simp add: model_job_def)
  have completed: "status (model_job\<lparr>status := ''completed''\<rparr>) = ''completed''"
    by simp
  have a: "fst (cautiously_refresh_status \<lparr>hybrid = False\<rparr> refresh_completes model_job
          ''users'' some_attempts) = Inr (status (model_job\<lparr>status := ''completed''\<rparr>))
      \<and> items (snd (snd (cautiously_refresh_status \<lparr>hybrid = False\<rparr> refresh_completes
          model_job ''users'' some_attempts))) ''users'' = Some 0"
    using cautiously_refresh_status_counter [of refresh_completes model_job
        "\<lparr>hybrid = False\<rparr>" "''users''" some_attempts] ok
    by blast
  have b: "fst (cautiously_refresh_status \<lparr>hybrid = False\<rparr> refresh_fails model_job
          ''users'' some_attempts) = Inr (status model_job)
      \<and> items (snd (snd (cautiously_refresh_status \<lparr>hybrid = False\<rparr> refresh_fails
          model_job ''users'' some_attempts))) ''users'' = Some (2 + 1)"
    using cautiously_refresh_status_counter [of refresh_fails model_job
        "\<lparr>hybrid = False\<rparr>" "''users''" some_attempts] failed two
    by blast
  from a b show ?thesis
    unfolding active completed by simp
qed

text \<open>
  The claim C2 as it is written, for every dictionary, fails where the refresh raises and
  the key is not in a plain dictionary: the method raises \<open>KeyError\<close>, returns no status
  and stores no counter.
\<close>

theorem cautiously_refresh_status_missing_key_counterexample:
  "cautiously_refresh_status \<lparr>hybrid = False\<rparr> refresh_fails handler_job ''users''
       no_attempts
     = (Inl (KeyError ''users''), handler_job, no_attempts)
   \<and> items no_attempts ''users'' = None"
  by (simp add: cautiously_refresh_status_def refresh_fails_def no_attempts_def getitem_def)




text \<open>
  C9. \<open>cautiously_refresh_status\<close> changes the dictionary at most at the key it is
  given: under every other key the value after the call is the value before it, whether
  the refresh succeeds, fails, or the method raises.
\<close>

theorem cautiously_refresh_status_frame:
  "k \<noteq> key \<Longrightarrow>
   items (snd (snd (cautiously_refresh_status self refresh job key refresh_attempts))) k
     = items refresh_attempts k"
  by (simp add: cautiously_refresh_status_def getitem_def setitem_def
      split: sum.split option.split missing_hook.split)

theorem cautiously_refresh_status_frame_witness:
  "''events'' \<noteq> ''users''
   \<and> items (snd (snd (cautiously_refresh_status \<lparr>hybrid = False\<rparr> refresh_fails model_job
          ''users'' some_attempts))) ''events'' = Some 5
   \<and> items (snd (snd (cautiously_refresh_status \<lparr>hybrid = False\<rparr> refresh_completes
          model_job ''users'' some_attempts))) ''events'' = Some 5
   \<and> items (snd (snd (cautiously_refresh_status \<lparr>hybrid = False\<rparr> refresh_fails model_job
          ''users'' default_attempts))) ''events'' = Some 5"
proof -
  have other: "''events'' \<noteq> ''users''"
    by simp
  have five: "items some_attempts ''events'' = Some 5"
    by (simp add: some_attempts_def)
  have five': "items default_attempts ''events'' = Some 5"
    by (simp add: default_attempts_def)
  from other five five'
    cautiously_refresh_status_frame [OF other, of "\<lparr>hybrid = False\<rparr>" refresh_fails
      model_job some_attempts]
    cautiously_refresh_status_frame [OF other, of "\<lparr>hybrid = False\<rparr>" refresh_completes
      model_job some_attempts]
    cautiously_refresh_status_frame [OF other, of "\<lparr>hybrid = False\<rparr>" refresh_fails
      model_job default_attempts]
  show ?thesis by simp
qed

subsection \<open>\<open>delete_data_sources\<close>\<close>







text \<open>
  C5. In hybrid mode \<open>delete_data_sources\<close> makes no call at all, so no call of
  \<open>delete_artifact\<close>, and the project is the one it was given.
\<close>

theorem delete_data_sources_hybrid:
  "hybrid self \<Longrightarrow>
   delete_data_sources self delete_artifact project job = (Inr (), project, [])"
  by (simp add: delete_data_sources_def)

theorem delete_data_sources_hybrid_witness:
  "hybrid \<lparr>hybrid = True\<rparr>
   \<and> delete_data_sources \<lparr>hybrid = True\<rparr> drop_unlocked small_project model_job
       = (Inr (), small_project, [])"
proof -
  have is_hybrid: "hybrid \<lparr>hybrid = True\<rparr>"
    by simp
  from is_hybrid
    delete_data_sources_hybrid [where self = "\<lparr>hybrid = True\<rparr>"
      and delete_artifact = drop_unlocked and project = small_project and job = model_job]
  show ?thesis by blast
qed




subsection \<open>\<open>download_file_artifact\<close>\<close>









subsection \<open>\<open>sqs_score_from_full_report\<close>\<close>

lemma subscript_not_dict:
  "\<forall>kvs. x \<noteq> PDict kvs \<Longrightarrow> subscript x key = Inl TypeError"
  by (cases x) simp_all

lemma sqs_loop_skip:
  "\<forall>x \<in> set pre. \<exists>kvs f. x = PDict kvs \<and> map_of kvs ''field'' = Some f \<and> f \<noteq> PStr sqs_field
   \<Longrightarrow> sqs_loop (pre @ rest) = sqs_loop rest"
  by (induction pre) auto

lemma sqs_loop_raises:
  "sqs_loop xs = Inl e \<Longrightarrow> e = TypeError \<or> e = KeyError ''field'' \<or> e = KeyError ''value''"
proof (induction xs)
  case Nil
  then show ?case by simp
next
  case (Cons x xs)
  show ?case
  proof (cases "\<exists>kvs. x = PDict kvs")
    case False
    then have "subscript x ''field'' = Inl TypeError"
      by (simp add: subscript_not_dict)
    with Cons.prems show ?thesis by simp
  next
    case True
    then obtain kvs where x: "x = PDict kvs" by blast
    with Cons show ?thesis
      by (auto split: option.splits if_splits)
  qed
qed

lemma sqs_loop_dicts:
  "\<forall>x \<in> set xs. \<exists>kvs. x = PDict kvs \<Longrightarrow> sqs_loop xs \<noteq> Inl TypeError"
  by (induction xs) (auto split: option.splits if_splits)

lemma sqs_loop_no_match:
  "\<forall>x \<in> set xs. \<exists>kvs. x = PDict kvs \<and> map_of kvs ''field'' \<noteq> Some (PStr sqs_field)
   \<Longrightarrow> sqs_loop xs = Inr PNone \<or> sqs_loop xs = Inl (KeyError ''field'')"
  by (induction xs) (auto split: option.splits)

lemma sqs_loop_abort:
  "\<forall>x \<in> set pre. \<exists>kvs. x = PDict kvs \<and> map_of kvs ''field'' \<noteq> Some (PStr sqs_field)
   \<Longrightarrow> map_of d ''field'' = None
   \<Longrightarrow> sqs_loop (pre @ PDict d # rest) = Inl (KeyError ''field'')"
  by (induction pre) (auto split: option.splits)

lemma sqs_report_list:
  "map_of report ''summary'' = Some (PList xs) \<Longrightarrow>
   sqs_score_from_full_report self report = suppress_KeyError (sqs_loop xs)"
  by (simp add: sqs_score_from_full_report_def)

lemma sqs_report_no_summary:
  "map_of report ''summary'' = None \<Longrightarrow> sqs_score_from_full_report self report = Inr PNone"
  by (simp add: sqs_score_from_full_report_def)

lemma sqs_report_first_match:
  assumes "map_of report ''summary'' = Some (PList (pre @ PDict d # post))"
    and "\<forall>x \<in> set pre. \<exists>kvs f. x = PDict kvs \<and> map_of kvs ''field'' = Some f
           \<and> f \<noteq> PStr sqs_field"
    and "map_of d ''field'' = Some (PStr sqs_field)"
  shows "sqs_score_from_full_report self report
    = (case map_of d ''value'' of None \<Rightarrow> Inr PNone | Some v \<Rightarrow> Inr v)"
proof -
  have "sqs_loop (pre @ PDict d # post) = sqs_loop (PDict d # post)"
    using assms(2) by (rule sqs_loop_skip)
  also have "\<dots> = subscript (PDict d) ''value''"
    using assms(3) by simp
  finally show ?thesis
    using assms(1) by (simp add: sqs_report_list split: option.split)
qed

lemma sqs_report_no_match:
  assumes "map_of report ''summary'' = Some (PList xs)"
    and "\<forall>x \<in> set xs. \<exists>kvs. x = PDict kvs \<and> map_of kvs ''field'' \<noteq> Some (PStr sqs_field)"
  shows "sqs_score_from_full_report self report = Inr PNone"
  using sqs_loop_no_match [OF assms(2)] assms(1) by (auto simp add: sqs_report_list)

lemma sqs_report_only_TypeError:
  "sqs_score_from_full_report self report = Inl e \<Longrightarrow> e = TypeError"
proof -
  assume raised: "sqs_score_from_full_report self report = Inl e"
  show "e = TypeError"
  proof (cases "map_of report ''summary''")
    case None
    with raised show ?thesis by (simp add: sqs_report_no_summary)
  next
    case (Some s)
    show ?thesis
    proof (cases "iter s")
      case (Inl e')
      then have "e' = TypeError" by (cases s) simp_all
      with Inl Some raised show ?thesis
        by (simp add: sqs_score_from_full_report_def)
    next
      case (Inr xs)
      with Some raised have r: "suppress_KeyError (sqs_loop xs) = Inl e"
        by (simp add: sqs_score_from_full_report_def)
      show ?thesis
      proof (cases "sqs_loop xs")
        case (Inl e')
        from sqs_loop_raises [OF Inl] Inl r show ?thesis by auto
      next
        case (Inr v)
        with r show ?thesis by simp
      qed
    qed
  qed
qed

lemma sqs_report_dicts:
  assumes "map_of report ''summary'' = Some (PList xs)"
    and "\<forall>x \<in> set xs. \<exists>kvs. x = PDict kvs"
  shows "\<exists>v. sqs_score_from_full_report self report = Inr v"
proof (cases "sqs_score_from_full_report self report")
  case (Inl e)
  then have "e = TypeError" by (rule sqs_report_only_TypeError)
  with Inl assms(1) have "suppress_KeyError (sqs_loop xs) = Inl TypeError"
    by (simp add: sqs_report_list)
  then have "sqs_loop xs = Inl TypeError"
    by (cases "sqs_loop xs" rule: suppress_KeyError.cases) simp_all
  with sqs_loop_dicts [OF assms(2)] show ?thesis by simp
next
  case (Inr v)
  then show ?thesis by blast
qed

lemma sqs_report_not_iterable:
  assumes "map_of report ''summary'' = Some s"
    and "s = PNone \<or> (\<exists>b. s = PBool b) \<or> (\<exists>i. s = PInt i)"
  shows "sqs_score_from_full_report self report = Inl TypeError"
  using assms by (auto simp add: sqs_score_from_full_report_def)

lemma sqs_report_not_dict:
  assumes "map_of report ''summary'' = Some (PList (pre @ x # post))"
    and "\<forall>x \<in> set pre. \<exists>kvs f. x = PDict kvs \<and> map_of kvs ''field'' = Some f
           \<and> f \<noteq> PStr sqs_field"
    and "\<forall>kvs. x \<noteq> PDict kvs"
  shows "sqs_score_from_full_report self report = Inl TypeError"
proof -
  have "sqs_loop (pre @ x # post) = sqs_loop (x # post)"
    using assms(2) by (rule sqs_loop_skip)
  also have "\<dots> = Inl TypeError"
    using assms(3) by (simp add: subscript_not_dict)
  finally show ?thesis
    using assms(1) by (simp add: sqs_report_list)
qed

text \<open>
  C4, as the code has it. For a report without a \<open>summary\<close> key the method returns
  \<open>None\<close>. For a summary that is a list: when the entries before the first one whose
  \<open>field\<close> equals \<open>synthetic_data_quality_score\<close> are dictionaries with a \<open>field\<close>
  key, the method returns that entry's \<open>value\<close>, or \<open>None\<close> if the entry has no
  \<open>value\<close> key; when every entry is a dictionary and none has that field, it returns
  \<open>None\<close>; and when every entry is a dictionary it does not raise. Only \<open>KeyError\<close> is
  suppressed: a summary that is \<open>None\<close>, a boolean or a number, and an entry that is not
  a dictionary and is reached by the scan, raise \<open>TypeError\<close>, which is the only
  exception the method can raise.
\<close>

theorem sqs_score_from_full_report_outcome:
  "(map_of report ''summary'' = None \<longrightarrow>
      sqs_score_from_full_report self report = Inr PNone)
   \<and> (\<forall>pre d post.
        map_of report ''summary'' = Some (PList (pre @ PDict d # post))
        \<and> (\<forall>x \<in> set pre. \<exists>kvs f. x = PDict kvs \<and> map_of kvs ''field'' = Some f
              \<and> f \<noteq> PStr sqs_field)
        \<and> map_of d ''field'' = Some (PStr sqs_field)
      \<longrightarrow> sqs_score_from_full_report self report
            = (case map_of d ''value'' of None \<Rightarrow> Inr PNone | Some v \<Rightarrow> Inr v))
   \<and> (\<forall>xs.
        map_of report ''summary'' = Some (PList xs)
        \<and> (\<forall>x \<in> set xs. \<exists>kvs. x = PDict kvs
              \<and> map_of kvs ''field'' \<noteq> Some (PStr sqs_field))
      \<longrightarrow> sqs_score_from_full_report self report = Inr PNone)
   \<and> (\<forall>xs.
        map_of report ''summary'' = Some (PList xs) \<and> (\<forall>x \<in> set xs. \<exists>kvs. x = PDict kvs)
      \<longrightarrow> (\<exists>v. sqs_score_from_full_report self report = Inr v))
   \<and> (\<forall>s.
        map_of report ''summary'' = Some s
        \<and> (s = PNone \<or> (\<exists>b. s = PBool b) \<or> (\<exists>i. s = PInt i))
      \<longrightarrow> sqs_score_from_full_report self report = Inl TypeError)
   \<and> (\<forall>pre x post.
        map_of report ''summary'' = Some (PList (pre @ x # post))
        \<and> (\<forall>x \<in> set pre. \<exists>kvs f. x = PDict kvs \<and> map_of kvs ''field'' = Some f
              \<and> f \<noteq> PStr sqs_field)
        \<and> (\<forall>kvs. x \<noteq> PDict kvs)
      \<longrightarrow> sqs_score_from_full_report self report = Inl TypeError)
   \<and> (\<forall>e. sqs_score_from_full_report self report = Inl e \<longrightarrow> e = TypeError)"
proof (intro conjI allI impI)
  assume "map_of report ''summary'' = None"
  then show "sqs_score_from_full_report self report = Inr PNone"
    by (rule sqs_report_no_summary)
next
  fix pre d post
  assume "map_of report ''summary'' = Some (PList (pre @ PDict d # post))
        \<and> (\<forall>x \<in> set pre. \<exists>kvs f. x = PDict kvs \<and> map_of kvs ''field'' = Some f
              \<and> f \<noteq> PStr sqs_field)
        \<and> map_of d ''field'' = Some (PStr sqs_field)"
  then show "sqs_score_from_full_report self report
            = (case map_of d ''value'' of None \<Rightarrow> Inr PNone | Some v \<Rightarrow> Inr v)"
    using sqs_report_first_match [of report pre d post self] by blast
next
  fix xs
  assume "map_of report ''summary'' = Some (PList xs)
        \<and> (\<forall>x \<in> set xs. \<exists>kvs. x = PDict kvs
              \<and> map_of kvs ''field'' \<noteq> Some (PStr sqs_field))"
  then show "sqs_score_from_full_report self report = Inr PNone"
    using sqs_report_no_match [of report xs self] by blast
next
  fix xs
  assume "map_of report ''summary'' = Some (PList xs) \<and> (\<forall>x \<in> set xs. \<exists>kvs. x = PDict kvs)"
  then show "\<exists>v. sqs_score_from_full_report self report = Inr v"
    using sqs_report_dicts [of report xs self] by blast
next
  fix s
  assume "map_of report ''summary'' = Some s
        \<and> (s = PNone \<or> (\<exists>b. s = PBool b) \<or> (\<exists>i. s = PInt i))"
  then show "sqs_score_from_full_report self report = Inl TypeError"
    using sqs_report_not_iterable [of report s self] by blast
next
  fix pre x post
  assume "map_of report ''summary'' = Some (PList (pre @ x # post))
        \<and> (\<forall>x \<in> set pre. \<exists>kvs f. x = PDict kvs \<and> map_of kvs ''field'' = Some f
              \<and> f \<noteq> PStr sqs_field)
        \<and> (\<forall>kvs. x \<noteq> PDict kvs)"
  then show "sqs_score_from_full_report self report = Inl TypeError"
    using sqs_report_not_dict [of report pre x post self] by blast
next
  fix e
  assume "sqs_score_from_full_report self report = Inl e"
  then show "e = TypeError"
    by (rule sqs_report_only_TypeError)
qed

theorem sqs_score_from_full_report_outcome_witness:
  "sqs_score_from_full_report \<lparr>hybrid = False\<rparr> no_summary_report = Inr PNone
   \<and> sqs_score_from_full_report \<lparr>hybrid = False\<rparr> regular_report = Inr (PInt 80)
   \<and> sqs_score_from_full_report \<lparr>hybrid = False\<rparr> valueless_report = Inr PNone
   \<and> sqs_score_from_full_report \<lparr>hybrid = False\<rparr> unscored_report = Inr PNone
   \<and> (\<exists>v. sqs_score_from_full_report \<lparr>hybrid = False\<rparr> unscored_report = Inr v)
   \<and> sqs_score_from_full_report \<lparr>hybrid = False\<rparr> null_summary_report = Inl TypeError
   \<and> sqs_score_from_full_report \<lparr>hybrid = False\<rparr> string_entry_report = Inl TypeError"
proof -
  let ?sdk = "\<lparr>hybrid = False\<rparr>"
  let ?other = "PDict [(''field'', PStr ''field_correlation_stability''), (''value'', PInt 71)]"
  let ?odd = "PDict [(''field'', PInt 0), (''value'', PInt 1)]"
  let ?first = "[(''field'', PStr ''synthetic_data_quality_score''), (''value'', PInt 80)]"
  let ?second = "PDict [(''field'', PStr ''synthetic_data_quality_score''), (''value'', PInt 3)]"
  let ?bare = "[(''field'', PStr ''synthetic_data_quality_score'')]"
  have a0: "map_of no_summary_report ''summary'' = None"
    by (simp add: no_summary_report_def)
  have a: "sqs_score_from_full_report ?sdk no_summary_report = Inr PNone"
    using sqs_score_from_full_report_outcome [of no_summary_report ?sdk] a0 by blast
  have b0: "map_of regular_report ''summary'' = Some (PList ([?other] @ PDict ?first # [?second]))"
    by (simp add: regular_report_def sqs_entry_def)
  have b1: "\<forall>x \<in> set [?other]. \<exists>kvs f. x = PDict kvs \<and> map_of kvs ''field'' = Some f
      \<and> f \<noteq> PStr sqs_field"
    by (simp add: sqs_field_def)
  have b2: "map_of ?first ''field'' = Some (PStr sqs_field)"
    by (simp add: sqs_field_def)
  have "sqs_score_from_full_report ?sdk regular_report
      = (case map_of ?first ''value'' of None \<Rightarrow> Inr PNone | Some v \<Rightarrow> Inr v)"
    by (rule sqs_score_from_full_report_outcome [of regular_report ?sdk,
          THEN conjunct2, THEN conjunct1, rule_format, OF conjI [OF b0 conjI [OF b1 b2]]])
  then have b: "sqs_score_from_full_report ?sdk regular_report = Inr (PInt 80)"
    by simp
  have c0: "map_of valueless_report ''summary'' = Some (PList ([] @ PDict ?bare # []))"
    by (simp add: valueless_report_def)
  have c1: "\<forall>x \<in> set []. \<exists>kvs f. x = PDict kvs \<and> map_of kvs ''field'' = Some f
      \<and> f \<noteq> PStr sqs_field"
    by simp
  have c2: "map_of ?bare ''field'' = Some (PStr sqs_field)"
    by (simp add: sqs_field_def)
  have "sqs_score_from_full_report ?sdk valueless_report
      = (case map_of ?bare ''value'' of None \<Rightarrow> Inr PNone | Some v \<Rightarrow> Inr v)"
    by (rule sqs_score_from_full_report_outcome [of valueless_report ?sdk,
          THEN conjunct2, THEN conjunct1, rule_format, OF conjI [OF c0 conjI [OF c1 c2]]])
  then have c: "sqs_score_from_full_report ?sdk valueless_report = Inr PNone"
    by simp
  have d0: "map_of unscored_report ''summary'' = Some (PList [?other, ?odd])"
    by (simp add: unscored_report_def)
  have d1: "\<forall>x \<in> set [?other, ?odd]. \<exists>kvs. x = PDict kvs
      \<and> map_of kvs ''field'' \<noteq> Some (PStr sqs_field)"
    by (simp add: sqs_field_def)
  have d2: "\<forall>x \<in> set [?other, ?odd]. \<exists>kvs. x = PDict kvs"
    by simp
  have d: "sqs_score_from_full_report ?sdk unscored_report = Inr PNone"
    by (rule sqs_score_from_full_report_outcome [of unscored_report ?sdk,
          THEN conjunct2, THEN conjunct2, THEN conjunct1, rule_format, OF conjI [OF d0 d1]])
  have d': "\<exists>v. sqs_score_from_full_report ?sdk unscored_report = Inr v"
    by (rule sqs_score_from_full_report_outcome [of unscored_report ?sdk,
          THEN conjunct2, THEN conjunct2, THEN conjunct2, THEN conjunct1, rule_format,
          OF conjI [OF d0 d2]])
  have e0: "map_of null_summary_report ''summary'' = Some PNone"
    by (simp add: null_summary_report_def)
  have e: "sqs_score_from_full_report ?sdk null_summary_report = Inl TypeError"
    using sqs_score_from_full_report_outcome [of null_summary_report ?sdk] e0 by blast
  have f0: "map_of string_entry_report ''summary''
      = Some (PList ([] @ PStr ''synthetic_data_quality_score'' # []))"
    by (simp add: string_entry_report_def)
  have f1: "\<forall>kvs. PStr ''synthetic_data_quality_score'' \<noteq> PDict kvs"
    by simp
  have f: "sqs_score_from_full_report ?sdk string_entry_report = Inl TypeError"
    by (rule sqs_score_from_full_report_outcome [of string_entry_report ?sdk,
          THEN conjunct2, THEN conjunct2, THEN conjunct2, THEN conjunct2, THEN conjunct2,
          THEN conjunct1, rule_format, OF conjI [OF f0 conjI [OF c1 f1]]])
  from a b c d d' e f show ?thesis
    by (intro conjI)
qed

text \<open>
  The claim C4 as it is written fails on a malformed report whose summary is \<open>None\<close>:
  the loop raises \<open>TypeError\<close>, which \<open>suppress(KeyError)\<close> lets through.
\<close>

theorem sqs_score_from_full_report_null_summary_counterexample:
  "map_of null_summary_report ''summary'' = Some PNone
   \<and> sqs_score_from_full_report \<lparr>hybrid = False\<rparr> null_summary_report = Inl TypeError"
  by (simp add: sqs_score_from_full_report_def null_summary_report_def)

text \<open>
  C10, as the code has it. If an entry of the summary list that comes before the first
  entry whose \<open>field\<close> equals \<open>synthetic_data_quality_score\<close> is a dictionary without
  a \<open>field\<close> key, and every entry before that dictionary is a dictionary too, the
  method returns \<open>None\<close>, although a matching entry comes later.
\<close>

theorem sqs_score_from_full_report_aborted_scan:
  assumes "map_of report ''summary'' = Some (PList (pre @ PDict d # mid @ PDict m # post))"
    and "\<forall>x \<in> set pre. \<exists>kvs. x = PDict kvs"
    and "\<forall>x \<in> set (pre @ PDict d # mid). subscript x ''field'' \<noteq> Inr (PStr sqs_field)"
    and "map_of d ''field'' = None"
    and "map_of m ''field'' = Some (PStr sqs_field)"
  shows "sqs_score_from_full_report self report = Inr PNone"
proof -
  have "\<forall>x \<in> set pre. \<exists>kvs. x = PDict kvs \<and> map_of kvs ''field'' \<noteq> Some (PStr sqs_field)"
  proof
    fix x
    assume x: "x \<in> set pre"
    with assms(2) obtain kvs where kvs: "x = PDict kvs"
      by blast
    from x assms(3) have "subscript x ''field'' \<noteq> Inr (PStr sqs_field)"
      by simp
    with kvs have "map_of kvs ''field'' \<noteq> Some (PStr sqs_field)"
      by auto
    with kvs show "\<exists>kvs. x = PDict kvs \<and> map_of kvs ''field'' \<noteq> Some (PStr sqs_field)"
      by blast
  qed
  then have "sqs_loop (pre @ PDict d # mid @ PDict m # post) = Inl (KeyError ''field'')"
    using assms(4) by (rule sqs_loop_abort)
  with assms(1) show ?thesis
    by (simp add: sqs_report_list)
qed

theorem sqs_score_from_full_report_aborted_scan_witness:
  "sqs_score_from_full_report \<lparr>hybrid = True\<rparr> fieldless_first_report = Inr PNone
   \<and> map_of fieldless_first_report ''summary''
       = Some (PList
           ([PDict [(''field'', PStr ''privacy_protection_level''), (''value'', PInt 2)]]
            @ PDict [(''value'', PInt 9)]
            # [PDict [(''field'', PStr ''field_distribution_stability'')]]
            @ PDict [(''field'', PStr ''synthetic_data_quality_score''), (''value'', PInt 80)]
            # []))"
proof -
  let ?pre = "[PDict [(''field'', PStr ''privacy_protection_level''), (''value'', PInt 2)]]"
  let ?d = "[(''value'', PInt 9)]"
  let ?mid = "[PDict [(''field'', PStr ''field_distribution_stability'')]]"
  let ?m = "[(''field'', PStr ''synthetic_data_quality_score''), (''value'', PInt 80)]"
  have summary: "map_of fieldless_first_report ''summary''
      = Some (PList (?pre @ PDict ?d # ?mid @ PDict ?m # []))"
    by (simp add: fieldless_first_report_def sqs_entry_def)
  have dicts: "\<forall>x \<in> set ?pre. \<exists>kvs. x = PDict kvs"
    by simp
  have first: "\<forall>x \<in> set (?pre @ PDict ?d # ?mid). subscript x ''field'' \<noteq> Inr (PStr sqs_field)"
    by (simp add: sqs_field_def)
  have fieldless: "map_of ?d ''field'' = None"
    by simp
  have match: "map_of ?m ''field'' = Some (PStr sqs_field)"
    by (simp add: sqs_field_def)
  have "sqs_score_from_full_report \<lparr>hybrid = True\<rparr> fieldless_first_report = Inr PNone"
    using summary dicts first fieldless match
    by (rule sqs_score_from_full_report_aborted_scan)
  with summary show ?thesis
    by (intro conjI)
qed

text \<open>
  The claim C10 as it is written fails when an entry before the dictionary without a
  \<open>field\<close> key is not a dictionary: the scan stops there with \<open>TypeError\<close>.
\<close>

theorem sqs_score_from_full_report_number_first_counterexample:
  "map_of number_first_report ''summary''
     = Some (PList [PInt 5, PDict [],
         PDict [(''field'', PStr ''synthetic_data_quality_score''), (''value'', PInt 80)]])
   \<and> sqs_score_from_full_report \<lparr>hybrid = False\<rparr> number_first_report = Inl TypeError"
  by (simp add: sqs_score_from_full_report_def number_first_report_def sqs_entry_def)

end
